theory Spec2Isabelle
  imports Main "HOL-Library.Word" "HOL-Library.Char_ord" "HOL-Library.List_Lexorder"
    "HOL-Library.Multiset" "HOL-Library.Sublist" "HOL-Library.AList"
begin

section \<open>Data model\<close>

text \<open>
  Go's \<open>int\<close> is 64 bits wide on the platforms the server is built for; counters are
  two's-complement words, compared as signed numbers (\<open><s\<close>, \<open>\<le>s\<close>) and incremented
  with wrap-around.
\<close>

type_synonym go_int = "64 word"

text \<open>\<open>UploadSession\<close>: the two mutexes carry no data and are left out.\<close>

record UploadSession =
  Email :: string
  Phone :: string
  DataOrigin :: string
  UploadCount :: go_int
  CompletedCount :: go_int

text \<open>The body of \<open>/upload-session\<close> (\<open>SessionRequest\<close>).\<close>

record SessionRequest =
  sr_SessionID :: string
  sr_Email :: string
  sr_Phone :: string
  sr_DataOrigin :: string
  sr_TotalFiles :: go_int

text \<open>The body of \<open>/upload-complete\<close> (\<open>CompleteRequest\<close>).\<close>

record CompleteRequest =
  cr_UploadID :: string
  cr_FileName :: string
  cr_Email :: string
  cr_Phone :: string
  cr_DataOrigin :: string
  cr_SessionID :: string
  cr_TotalFiles :: go_int

text \<open>The fields of the multipart form of \<open>/upload-chunk\<close>; \<open>dataFile\<close> is the binary
  part (\<open>None\<close> when the form has no such part), the other two are what \<open>FormValue\<close>
  returns (the empty string for a missing field).\<close>

record ChunkForm =
  dataFile :: "string option"
  uploadId :: string
  chunkIndex :: string

text \<open>An HTTP request as a handler sees it: the method and the decoded body
  (\<open>None\<close> when decoding fails).\<close>

record 'b Request =
  Method :: string
  Body :: "'b option"

record Config =
  NextcloudURL :: string
  NextcloudUser :: string
  NextcloudAppPass :: string
  NextcloudUploadDir :: string
  UploadTempDir :: string

text \<open>The global \<open>uploadSessions\<close> map.\<close>

type_synonym sessions = "string \<rightharpoonup> UploadSession"

section \<open>The Go library functions the handlers call\<close>

subsection \<open>Package strings\<close>

text \<open>\<open>strings.ReplaceAll(s, old, new)\<close> for an \<open>old\<close> of one byte, which is how every
  call of the program uses it.\<close>

definition strings_ReplaceAll :: "string \<Rightarrow> char \<Rightarrow> string \<Rightarrow> string" where
  "strings_ReplaceAll s old new = concat (map (\<lambda>c. if c = old then new else [c]) s)"

fun strings_Join :: "string list \<Rightarrow> string \<Rightarrow> string" where
  "strings_Join [] sep = []"
| "strings_Join [x] sep = x"
| "strings_Join (x # y # ys) sep = x @ sep @ strings_Join (y # ys) sep"

subsection \<open>Decimal numerals: \<open>fmt.Sprintf("%d", n)\<close> and \<open>strconv.Atoi\<close>\<close>

text \<open>A number is written from its last digit backwards, each digit looked up in the
  digit string.\<close>

definition digit_char :: "nat \<Rightarrow> char" where
  "digit_char d = ''0123456789'' ! d"

fun digits10 :: "nat \<Rightarrow> string" where
  "digits10 n = (if n < 10 then [digit_char n] else digits10 (n div 10) @ [digit_char (n mod 10)])"

declare digits10.simps [simp del]

definition format_d :: "int \<Rightarrow> string" where
  "format_d i = (if i < 0 then CHR ''-'' # digits10 (nat (- i)) else digits10 (nat i))"

datatype NumError = ErrSyntax | ErrRange

definition is_digit :: "char \<Rightarrow> bool" where
  "is_digit c = (CHR ''0'' \<le> c \<and> c \<le> CHR ''9'')"

definition digit_val :: "char \<Rightarrow> nat option" where
  "digit_val c = (if is_digit c then Some (of_char c - 48) else None)"

text \<open>The loop of \<open>strconv.ParseUint\<close> in base 10 for 64 bits: \<open>n\<close> is the value read so
  far. A byte that is no digit is a syntax error; the range error is raised as soon as
  the value leaves 64 bits, before the rest of the string is looked at.\<close>

fun parseUint_loop :: "nat \<Rightarrow> string \<Rightarrow> nat \<times> NumError option" where
  "parseUint_loop n [] = (n, None)"
| "parseUint_loop n (c # cs) =
     (case digit_val c of
        None \<Rightarrow> (0, Some ErrSyntax)
      | Some d \<Rightarrow>
          if n \<ge> (2 ^ 64 - 1) div 10 + 1 then (2 ^ 64 - 1, Some ErrRange)
          else let n1 = n * 10 + d in
            if n1 > 2 ^ 64 - 1 then (2 ^ 64 - 1, Some ErrRange)
            else parseUint_loop n1 cs)"

definition strconv_ParseUint :: "string \<Rightarrow> nat \<times> NumError option" where
  "strconv_ParseUint s = (if s = [] then (0, Some ErrSyntax) else parseUint_loop 0 s)"

text \<open>\<open>strconv.ParseInt(s, 10, 0)\<close>: an optional sign, then \<open>ParseUint\<close>; a value
  outside 64 signed bits is clamped and reported as a range error.\<close>

definition strconv_ParseInt :: "string \<Rightarrow> int \<times> NumError option" where
  "strconv_ParseInt s =
     (if s = [] then (0, Some ErrSyntax)
      else let neg = (hd s = CHR ''-'');
               s1 = (if hd s = CHR ''+'' \<or> hd s = CHR ''-'' then tl s else s);
               (un, err) = strconv_ParseUint s1
           in if err = Some ErrSyntax then (0, err)
              else if \<not> neg \<and> un \<ge> 2 ^ 63 then (2 ^ 63 - 1, Some ErrRange)
              else if neg \<and> un > 2 ^ 63 then (- (2 ^ 63), Some ErrRange)
              else (if neg then - int un else int un, None))"

text \<open>\<open>strconv.Atoi\<close>. Its fast path for short strings computes what \<open>ParseInt\<close>
  computes, so one definition serves both.\<close>

definition strconv_Atoi :: "string \<Rightarrow> go_int \<times> NumError option" where
  "strconv_Atoi s = (let (i, err) = strconv_ParseInt s in (word_of_int i, err))"

subsection \<open>Package path/filepath, on Unix\<close>

definition isSep :: "char \<Rightarrow> bool" where
  "isSep c = (c = CHR ''/'')"

text \<open>The path elements between separators; never the empty list.\<close>

fun elements :: "string \<Rightarrow> string list" where
  "elements [] = [[]]"
| "elements (c # cs) =
     (if isSep c then [] # elements cs
      else (case elements cs of [] \<Rightarrow> [[c]] | e # es \<Rightarrow> (c # e) # es))"

text \<open>
  \<open>filepath.Clean\<close> scans the path's elements from the left and keeps the elements of
  the result on a stack (here with its top first): an empty element and \<open>.\<close> are dropped;
  \<open>..\<close> removes the element before it, is dropped at the root of a rooted path, and is
  kept where a relative path has nothing left to remove; any other element is kept.
\<close>

definition cleanStep :: "bool \<Rightarrow> string list \<Rightarrow> string \<Rightarrow> string list" where
  "cleanStep rooted out e =
     (if e = [] \<or> e = ''.'' then out
      else if e = ''..'' then
        (case out of
           [] \<Rightarrow> if rooted then [] else [''..'']
         | t # ts \<Rightarrow> if t = ''..'' then ''..'' # out else ts)
      else e # out)"

definition filepath_Clean :: "string \<Rightarrow> string" where
  "filepath_Clean path =
     (if path = [] then ''.''
      else let rooted = isSep (hd path);
               out = rev (foldl (cleanStep rooted) [] (elements path))
           in if rooted then CHR ''/'' # strings_Join out ''/''
              else if out = [] then ''.'' else strings_Join out ''/'')"

text \<open>\<open>filepath.Base\<close>: trailing separators are stripped, then everything up to the
  last separator; the empty path gives \<open>.\<close>, a path of separators only gives \<open>/\<close>.\<close>

definition filepath_Base :: "string \<Rightarrow> string" where
  "filepath_Base path =
     (if path = [] then ''.''
      else let p = dropWhile isSep (rev path)
           in if p = [] then ''/'' else rev (takeWhile (\<lambda>c. \<not> isSep c) p))"

text \<open>\<open>filepath.Join\<close>: leading empty elements are ignored, the rest is joined with
  separators and cleaned; with nothing but empty elements the result is empty.\<close>

definition filepath_Join :: "string list \<Rightarrow> string" where
  "filepath_Join elem =
     (case dropWhile (\<lambda>e. e = []) elem of
        [] \<Rightarrow> []
      | es \<Rightarrow> filepath_Clean (strings_Join es ''/''))"

subsection \<open>Package sort\<close>

text \<open>
  \<open>sort.Slice\<close> with the comparison \<open>less\<close>. For up to 12 elements Go runs exactly this
  insertion sort: each element moves left while it is less than the one before it
  (\<open>insertLeft\<close> works on the reversed prefix). Longer slices go through
  pattern-defeating quicksort, which also returns a permutation ordered by \<open>less\<close> but
  may order elements that compare equal differently.
\<close>

fun insertLeft :: "('a \<Rightarrow> 'a \<Rightarrow> bool) \<Rightarrow> 'a \<Rightarrow> 'a list \<Rightarrow> 'a list" where
  "insertLeft lessFn x [] = [x]"
| "insertLeft lessFn x (y # ys) =
     (if lessFn x y then y # insertLeft lessFn x ys else x # y # ys)"

definition sort_Slice :: "('a \<Rightarrow> 'a \<Rightarrow> bool) \<Rightarrow> 'a list \<Rightarrow> 'a list" where
  "sort_Slice lessFn xs = rev (foldl (\<lambda>acc x. insertLeft lessFn x acc) [] xs)"

section \<open>The world around the handlers\<close>

subsection \<open>The file system\<close>

text \<open>
  A file system without links and without permissions: a table from absolute paths,
  given as their lists of names from the root, to files (with their bytes) and
  directories. The root, the empty list, is always a directory. Operations of other
  processes are not part of the model.
\<close>

datatype node = File string | Dir

type_synonym files = "(string list \<times> node) list"

datatype os_error = ENOENT | ENOTDIR | EISDIR

definition stat :: "files \<Rightarrow> string list \<Rightarrow> node option" where
  "stat fs k = (if k = [] then Some Dir else map_of fs k)"

text \<open>
  How the kernel walks a path name: from the root for a rooted path, from the working
  directory otherwise; \<open>.\<close> and empty names stay, \<open>..\<close> goes up (and stays at the
  root). Every path the handlers pass has been through \<open>filepath.Join\<close>, so \<open>..\<close> only
  stands at the front of a relative path, where it climbs from the working directory.
  The position is kept with its last name first.
\<close>

definition walkStep :: "string list \<Rightarrow> string \<Rightarrow> string list" where
  "walkStep pos e = (if e = [] \<or> e = ''.'' then pos else if e = ''..'' then tl pos else e # pos)"

definition resolve :: "string list \<Rightarrow> string \<Rightarrow> string list" where
  "resolve cwd path =
     rev (foldl walkStep (if path \<noteq> [] \<and> isSep (hd path) then [] else rev cwd)
            (elements path))"

text \<open>\<open>os.MkdirAll\<close> on a resolved path: a directory there is success, a file there
  is an error; otherwise the parent is made first and then the directory itself.\<close>

function mkdirAll :: "files \<Rightarrow> string list \<Rightarrow> os_error + files" where
  "mkdirAll fs k =
     (case stat fs k of
        Some Dir \<Rightarrow> Inr fs
      | Some (File c) \<Rightarrow> Inl ENOTDIR
      | None \<Rightarrow>
          (case mkdirAll fs (butlast k) of
             Inl e \<Rightarrow> Inl e
           | Inr fs' \<Rightarrow> Inr (AList.update k Dir fs')))"
  by pat_completeness auto
termination
  by (relation "measure (\<lambda>(fs, k). length k)") (auto simp: stat_def split: if_splits)

declare mkdirAll.simps [simp del]

text \<open>\<open>os.Create\<close>: the parent must be a directory and the path itself must not be
  one; the file is created, or truncated, to length zero.\<close>

definition create :: "files \<Rightarrow> string list \<Rightarrow> os_error + files" where
  "create fs k =
     (if k = [] then Inl EISDIR
      else case stat fs (butlast k) of
        None \<Rightarrow> Inl ENOENT
      | Some (File c) \<Rightarrow> Inl ENOTDIR
      | Some Dir \<Rightarrow>
          (case stat fs k of
             Some Dir \<Rightarrow> Inl EISDIR
           | _ \<Rightarrow> Inr (AList.update k (File []) fs)))"

text \<open>\<open>os.ReadDir\<close>: the names in a directory, sorted by file name.\<close>

definition names_in :: "files \<Rightarrow> string list \<Rightarrow> string list" where
  "names_in fs k = sort (remdups (map (last \<circ> fst) (filter (\<lambda>(k', n). k' \<noteq> [] \<and> butlast k' = k) fs)))"

definition readDir :: "files \<Rightarrow> string list \<Rightarrow> os_error + string list" where
  "readDir fs k =
     (case stat fs k of
        None \<Rightarrow> Inl ENOENT
      | Some (File c) \<Rightarrow> Inl ENOTDIR
      | Some Dir \<Rightarrow> Inr (names_in fs k))"

text \<open>\<open>os.RemoveAll\<close>: the path and everything below it go; a missing path is no
  error.\<close>

definition removeAll_fs :: "files \<Rightarrow> string list \<Rightarrow> files" where
  "removeAll_fs fs k = filter (\<lambda>(k', n). \<not> prefix k k') fs"

text \<open>What reading a sequence of opened files to the end gives (\<open>io.MultiReader\<close>):
  their bytes one after the other; reading a directory fails.\<close>

fun readAll :: "node list \<Rightarrow> string option" where
  "readAll [] = Some []"
| "readAll (Dir # rs) = None"
| "readAll (File c # rs) = (case readAll rs of None \<Rightarrow> None | Some d \<Rightarrow> Some (c @ d))"

subsection \<open>The storage backend\<close>

text \<open>
  Each request to the backend takes the next outcome from a script: the request could
  not be built (\<open>http.NewRequest\<close> failed, nothing is sent), the exchange failed, or the
  backend answered with a status code. An exhausted script is a failed exchange.
\<close>

datatype outcome = BadRequest | TransportError | Status nat

subsection \<open>What a handler does, as a trace\<close>

text \<open>The calls a handler makes to the operating system and the requests it sends to
  the backend, in their order; \<open>Probed\<close> records what \<open>checkDescriptionFileExists\<close>
  returned.\<close>

datatype event =
    OsMkdirAll string
  | OsCreate string
  | OsWrite string string
  | OsReadDir string
  | OsOpen string
  | OsRemoveAll string
  | HttpMkcol string
  | HttpPut string string "string option"
  | HttpHead string
  | Probed string bool

definition is_fs_event :: "event \<Rightarrow> bool" where
  "is_fs_event ev =
     (case ev of
        HttpMkcol f \<Rightarrow> False | HttpPut f n b \<Rightarrow> False | HttpHead f \<Rightarrow> False
      | Probed f b \<Rightarrow> False | _ \<Rightarrow> True)"

text \<open>
  The state a handler runs in: the file system and the working directory, the session
  registry, the script of the backend, the two readings of the clock a finalize call
  takes (Unix seconds for the folder name, RFC 3339 text for the note), whether
  \<open>io.Copy\<close> breaks off (after how many bytes), and the trace of calls so far.
\<close>

record world =
  fs :: files
  cwd :: "string list"
  uploadSessions :: sessions
  remote :: "outcome list"
  unixTime :: int
  timeRFC3339 :: string
  copyFault :: "nat option"
  trace :: "event list"

definition emit :: "event \<Rightarrow> world \<Rightarrow> world" where
  "emit ev w = w\<lparr>trace := trace w @ [ev]\<rparr>"

definition os_MkdirAll :: "string \<Rightarrow> world \<Rightarrow> os_error option \<times> world" where
  "os_MkdirAll path w =
     (let w1 = emit (OsMkdirAll path) w in
      case mkdirAll (fs w1) (resolve (cwd w1) path) of
        Inl e \<Rightarrow> (Some e, w1)
      | Inr fs' \<Rightarrow> (None, w1\<lparr>fs := fs'\<rparr>))"

definition os_Create :: "string \<Rightarrow> world \<Rightarrow> os_error option \<times> world" where
  "os_Create path w =
     (let w1 = emit (OsCreate path) w in
      case create (fs w1) (resolve (cwd w1) path) of
        Inl e \<Rightarrow> (Some e, w1)
      | Inr fs' \<Rightarrow> (None, w1\<lparr>fs := fs'\<rparr>))"

text \<open>\<open>io.Copy(dst, file)\<close> into the file just created; \<open>False\<close> when it breaks off.\<close>

definition io_Copy :: "string \<Rightarrow> string \<Rightarrow> world \<Rightarrow> bool \<times> world" where
  "io_Copy path content w =
     (let written = (case copyFault w of None \<Rightarrow> content | Some n \<Rightarrow> take n content);
          w1 = emit (OsWrite path written) w
      in (copyFault w = None,
          w1\<lparr>fs := AList.update (resolve (cwd w1) path) (File written) (fs w1)\<rparr>))"

definition os_ReadDir :: "string \<Rightarrow> world \<Rightarrow> (os_error + string list) \<times> world" where
  "os_ReadDir path w =
     (let w1 = emit (OsReadDir path) w in (readDir (fs w1) (resolve (cwd w1) path), w1))"

definition os_Open :: "string \<Rightarrow> world \<Rightarrow> node option \<times> world" where
  "os_Open path w =
     (let w1 = emit (OsOpen path) w in (stat (fs w1) (resolve (cwd w1) path), w1))"

definition os_RemoveAll :: "string \<Rightarrow> world \<Rightarrow> world" where
  "os_RemoveAll path w =
     (let w1 = emit (OsRemoveAll path) w in
      w1\<lparr>fs := removeAll_fs (fs w1) (resolve (cwd w1) path)\<rparr>)"

definition next_outcome :: "world \<Rightarrow> outcome \<times> world" where
  "next_outcome w =
     (case remote w of [] \<Rightarrow> (TransportError, w) | x # xs \<Rightarrow> (x, w\<lparr>remote := xs\<rparr>))"

section \<open>Session registry\<close>
text \<open>
  The critical section of \<open>handleUploadSession\<close>: the entry is stored under the
  session id, whatever was there before, with no check of \<open>TotalFiles\<close>.
\<close>

definition registerSession :: "sessions \<Rightarrow> SessionRequest \<Rightarrow> sessions" where
  "registerSession sess reqData =
     sess(sr_SessionID reqData \<mapsto>
       \<lparr>Email = sr_Email reqData, Phone = sr_Phone reqData,
        DataOrigin = sr_DataOrigin reqData, UploadCount = sr_TotalFiles reqData,
        CompletedCount = 0\<rparr>)"

text \<open>
  \<open>checkAndUpdateSession\<close> runs wholly under \<open>sessionsMutex\<close>; it returns its result
  and the registry it leaves. The increment is done on the entry the map points to; when
  the count reaches \<open>UploadCount\<close> the entry is deleted.
\<close>

definition checkAndUpdateSession ::
  "sessions \<Rightarrow> string \<Rightarrow> string \<Rightarrow> string \<Rightarrow> string \<Rightarrow> string \<Rightarrow> bool \<times> sessions" where
  "checkAndUpdateSession sess sessionID folderName email phone dataOrigin =
     (case sess sessionID of
        None \<Rightarrow> (True, sess)
      | Some session \<Rightarrow>
          (let session' = session\<lparr>CompletedCount := CompletedCount session + 1\<rparr> in
           if UploadCount session' \<le>s CompletedCount session'
           then (True, sess(sessionID := None))
           else (False, sess(sessionID \<mapsto> session'))))"

section \<open>The handlers\<close>

datatype body = Text string | Json "(string \<times> string) list"

record Response =
  StatusCode :: nat
  ResponseBody :: body

text \<open>\<open>http.Error\<close> writes the message and a newline as plain text.\<close>

definition http_Error :: "string \<Rightarrow> nat \<Rightarrow> Response" where
  "http_Error message statusCode =
     \<lparr>StatusCode = statusCode, ResponseBody = Text (message @ [CHR 0x0A])\<rparr>"

definition jsonError :: "string \<Rightarrow> nat \<Rightarrow> Response" where
  "jsonError message statusCode =
     \<lparr>StatusCode = statusCode, ResponseBody = Json [(''error'', message)]\<rparr>"

definition handleUploadSession :: "SessionRequest Request \<Rightarrow> world \<Rightarrow> Response \<times> world" where
  "handleUploadSession r w =
     (if Method r \<noteq> ''POST'' then (http_Error ''Method not allowed'' 405, w)
      else case Body r of
        None \<Rightarrow> (http_Error ''Invalid JSON body.'' 400, w)
      | Some reqData \<Rightarrow>
          (\<lparr>StatusCode = 200,
            ResponseBody = Json [(''message'', ''Upload session registered successfully''),
                                 (''sessionId'', sr_SessionID reqData)]\<rparr>,
           w\<lparr>uploadSessions := registerSession (uploadSessions w) reqData\<rparr>))"

text \<open>
  \<open>handleUploadChunk\<close>. The upload id goes through \<open>Base\<close> and \<open>Clean\<close> and is refused
  when that leaves \<open>.\<close> or \<open>..\<close>; \<open>chunkIndex\<close> is joined to the chunk directory as the
  form gave it.
\<close>

definition handleUploadChunk :: "Config \<Rightarrow> ChunkForm Request \<Rightarrow> world \<Rightarrow> Response \<times> world" where
  "handleUploadChunk appConfig r w =
     (if Method r \<noteq> ''POST'' then (http_Error ''Method not allowed'' 405, w)
      else case Body r of
        None \<Rightarrow> (http_Error ''Could not parse form. Chunk might be too large.'' 400, w)
      | Some form \<Rightarrow>
         (case dataFile form of
            None \<Rightarrow> (http_Error ''Invalid file chunk key.'' 400, w)
          | Some file \<Rightarrow>
             (let uploadID = uploadId form;
                  chunkIndex = chunkIndex form;
                  cleanUploadID = filepath_Clean (filepath_Base uploadID)
              in if cleanUploadID = ''.'' \<or> cleanUploadID = ''..''
                 then (http_Error ''Invalid upload ID.'' 400, w)
                 else
                  (let chunkDir = filepath_Join [UploadTempDir appConfig, cleanUploadID]
                   in case os_MkdirAll chunkDir w of
                        (Some e, w1) \<Rightarrow>
                          (http_Error ''Server error creating chunk directory.'' 500, w1)
                      | (None, w1) \<Rightarrow>
                         (let chunkPath = filepath_Join [chunkDir, chunkIndex]
                          in case os_Create chunkPath w1 of
                               (Some e, w2) \<Rightarrow>
                                 (http_Error ''Server error creating chunk file.'' 500, w2)
                             | (None, w2) \<Rightarrow>
                                (case io_Copy chunkPath file w2 of
                                   (False, w3) \<Rightarrow>
                                     (http_Error ''Server error saving chunk file.'' 500, w3)
                                 | (True, w3) \<Rightarrow>
                                     (\<lparr>StatusCode = 200,
                                       ResponseBody = Text ''Chunk uploaded successfully''\<rparr>,
                                      w3)))))))"

text \<open>\<open>createNextcloudFolder\<close>: \<open>True\<close> stands for the \<open>nil\<close> error. Created (201)
  and already there (405) both count as success.\<close>

definition createNextcloudFolder :: "string \<Rightarrow> world \<Rightarrow> bool \<times> world" where
  "createNextcloudFolder folderName w =
     (case next_outcome w of
        (BadRequest, w1) \<Rightarrow> (False, w1)
      | (TransportError, w1) \<Rightarrow> (False, emit (HttpMkcol folderName) w1)
      | (Status c, w1) \<Rightarrow> (c = 201 \<or> c = 405, emit (HttpMkcol folderName) w1))"

text \<open>\<open>uploadToNextcloudFolder\<close>: the request body is what reading \<open>data\<close> to the end
  gives; a body that cannot be read makes the exchange fail.\<close>

definition uploadToNextcloudFolder ::
  "string \<Rightarrow> string \<Rightarrow> node list \<Rightarrow> world \<Rightarrow> bool \<times> world" where
  "uploadToNextcloudFolder folderName filename data w =
     (case next_outcome w of
        (BadRequest, w1) \<Rightarrow> (False, w1)
      | (TransportError, w1) \<Rightarrow> (False, emit (HttpPut folderName filename (readAll data)) w1)
      | (Status c, w1) \<Rightarrow>
          (readAll data \<noteq> None \<and> (c = 201 \<or> c = 204),
           emit (HttpPut folderName filename (readAll data)) w1))"

text \<open>\<open>checkDescriptionFileExists\<close>: only the answer 200 counts as "exists".\<close>

definition checkDescriptionFileExists :: "string \<Rightarrow> world \<Rightarrow> bool \<times> world" where
  "checkDescriptionFileExists folderName w =
     (case next_outcome w of
        (BadRequest, w1) \<Rightarrow> (False, emit (Probed folderName False) w1)
      | (TransportError, w1) \<Rightarrow>
          (False, emit (Probed folderName False) (emit (HttpHead folderName) w1))
      | (Status c, w1) \<Rightarrow>
          (c = 200, emit (Probed folderName (c = 200)) (emit (HttpHead folderName) w1)))"

text \<open>\<open>createFolderName\<close>; \<open>timestamp\<close> is the reading of \<open>time.Now().Unix()\<close>.\<close>

definition createFolderName :: "int \<Rightarrow> string \<Rightarrow> string \<Rightarrow> string" where
  "createFolderName timestamp email phone =
     (let sanitizedEmail = strings_ReplaceAll email (CHR ''@'') ''_at_'';
          sanitizedEmail = strings_ReplaceAll sanitizedEmail (CHR ''.'') ''_'';
          sanitizedPhone = strings_ReplaceAll phone (CHR '' '') [];
          sanitizedPhone = strings_ReplaceAll sanitizedPhone (CHR ''-'') [];
          sanitizedPhone = strings_ReplaceAll sanitizedPhone (CHR ''('') [];
          sanitizedPhone = strings_ReplaceAll sanitizedPhone (CHR '')'') [];
          sanitizedPhone = strings_ReplaceAll sanitizedPhone (CHR ''+'') ''plus'';
          components = [format_d timestamp];
          components = (if email \<noteq> [] then components @ [sanitizedEmail] else components);
          components = (if phone \<noteq> [] then components @ [sanitizedPhone] else components)
      in strings_Join components ''-'')"

text \<open>\<open>createDescriptionContent\<close>; \<open>stamp\<close> is the clock reading in RFC 3339. The two
  accented letters are written as their UTF-8 bytes.\<close>

definition createDescriptionContent ::
  "string \<Rightarrow> string \<Rightarrow> string \<Rightarrow> string \<Rightarrow> string \<Rightarrow> string" where
  "createDescriptionContent stamp filename email phone dataOrigin =
     ''--- UPLOAD INFORMATION ---'' @ [CHR 0x0A]
     @ ''Timestamp (UTC): '' @ stamp @ [CHR 0x0A]
     @ ''Original Filename: '' @ filename @ [CHR 0x0A]
     @ ''Email: '' @ email @ [CHR 0x0A]
     @ (if phone \<noteq> [] then ''Tel'' @ [CHR 0xC3, CHR 0xA9] @ ''fono: '' @ phone @ [CHR 0x0A]
        else [])
     @ [CHR 0x0A] @ ''--- DESCRIPCI'' @ [CHR 0xC3, CHR 0x93] @ ''N ---'' @ [CHR 0x0A]
     @ dataOrigin
     @ [CHR 0x0A, CHR 0x0A] @ ''--- FIN ---'' @ [CHR 0x0A]"

text \<open>The comparison handed to \<open>sort.Slice\<close>: by \<open>strconv.Atoi\<close> of the two names, the
  error dropped (a name that is no number counts as 0, one beyond 64 bits as the largest
  or smallest \<open>int\<close>).\<close>

definition chunkLess :: "string \<Rightarrow> string \<Rightarrow> bool" where
  "chunkLess nameI nameJ = (fst (strconv_Atoi nameI) <s fst (strconv_Atoi nameJ))"

text \<open>The loop that opens the chunk files in their sorted order; \<open>None\<close> when one
  cannot be opened.\<close>

fun openChunks :: "string \<Rightarrow> string list \<Rightarrow> node list \<Rightarrow> world \<Rightarrow> node list option \<times> world" where
  "openChunks chunkDir [] readers w = (Some readers, w)"
| "openChunks chunkDir (name # chunkFiles) readers w =
     (let path = filepath_Join [chunkDir, name]
      in case os_Open path w of
           (None, w1) \<Rightarrow> (None, w1)
         | (Some f, w1) \<Rightarrow> openChunks chunkDir chunkFiles (readers @ [f]) w1)"

text \<open>\<open>handleUploadComplete\<close> is given in four parts. The first is the session check
  ("Check if this is part of a multi-file session"): whether the note is due, and the
  registry after the call.\<close>

definition checkSession :: "CompleteRequest \<Rightarrow> string \<Rightarrow> world \<Rightarrow> bool \<times> world" where
  "checkSession reqData folderName w =
     (if cr_SessionID reqData \<noteq> []
      then (let (shouldUploadDescription, sess') =
                  checkAndUpdateSession (uploadSessions w) (cr_SessionID reqData) folderName
                    (cr_Email reqData) (cr_Phone reqData) (cr_DataOrigin reqData)
            in (shouldUploadDescription, w\<lparr>uploadSessions := sess'\<rparr>))
      else (True, w))"

text \<open>The second is the note ("Create and upload description text file only if
  needed"), entered when the note is due: the probe, and the upload unless the probe
  found the note; \<open>success\<close> is the answer of the call when nothing fails.\<close>

definition uploadDescription ::
  "CompleteRequest \<Rightarrow> string \<Rightarrow> Response \<Rightarrow> world \<Rightarrow> Response \<times> world" where
  "uploadDescription reqData folderName success w =
     (case checkDescriptionFileExists folderName w of
        (True, w1) \<Rightarrow> (success, w1)
      | (False, w1) \<Rightarrow>
         (let descriptionContent =
                createDescriptionContent (timeRFC3339 w1) (cr_FileName reqData)
                  (cr_Email reqData) (cr_Phone reqData) (cr_DataOrigin reqData)
          in case uploadToNextcloudFolder folderName ''descripcion.txt''
                    [File descriptionContent] w1 of
               (False, w2) \<Rightarrow> (jsonError ''Failed to upload description file.'' 500, w2)
             | (True, w2) \<Rightarrow> (success, w2)))"

text \<open>The third is everything from \<open>os.ReadDir\<close> to the last line, which is what the
  deferred \<open>os.RemoveAll\<close> waits for.\<close>

definition completeUpload :: "CompleteRequest \<Rightarrow> string \<Rightarrow> world \<Rightarrow> Response \<times> world" where
  "completeUpload reqData chunkDir w =
     (case os_ReadDir chunkDir w of
        (Inl e, w1) \<Rightarrow> (jsonError ''Could not find chunks on server.'' 500, w1)
      | (Inr chunkFiles, w1) \<Rightarrow>
         (case openChunks chunkDir (sort_Slice chunkLess chunkFiles) [] w1 of
            (None, w2) \<Rightarrow> (jsonError ''Error processing chunks.'' 500, w2)
          | (Some originalFileReader, w2) \<Rightarrow>
             (let folderName = createFolderName (unixTime w2) (cr_Email reqData) (cr_Phone reqData)
              in case createNextcloudFolder folderName w2 of
                   (False, w3) \<Rightarrow> (jsonError ''Failed to create folder in Nextcloud.'' 500, w3)
                 | (True, w3) \<Rightarrow>
                    (let finalFilename = filepath_Base (cr_FileName reqData)
                     in case uploadToNextcloudFolder folderName finalFilename
                               originalFileReader w3 of
                          (False, w4) \<Rightarrow> (jsonError ''Failed to upload to Nextcloud.'' 500, w4)
                        | (True, w4) \<Rightarrow>
                           (let (shouldUploadDescription, w5) = checkSession reqData folderName w4;
                                success =
                                  \<lparr>StatusCode = 200,
                                   ResponseBody = Json [(''message'', ''File uploaded successfully!''),
                                                        (''folderName'', folderName),
                                                        (''fileName'', finalFilename)]\<rparr>
                            in if shouldUploadDescription
                               then uploadDescription reqData folderName success w5
                               else (success, w5))))))"

text \<open>The fourth is the head of \<open>handleUploadComplete\<close>: the method, the body, the
  upload id; then the deferred \<open>os.RemoveAll(chunkDir)\<close> is registered, and it runs
  after the rest, however that ends.\<close>

definition handleUploadComplete ::
  "Config \<Rightarrow> CompleteRequest Request \<Rightarrow> world \<Rightarrow> Response \<times> world" where
  "handleUploadComplete appConfig r w =
     (if Method r \<noteq> ''POST'' then (http_Error ''Method not allowed'' 405, w)
      else case Body r of
        None \<Rightarrow> (http_Error ''Invalid JSON body.'' 400, w)
      | Some reqData \<Rightarrow>
         (let cleanUploadID = filepath_Clean (filepath_Base (cr_UploadID reqData))
          in if cleanUploadID = ''.'' \<or> cleanUploadID = ''..''
             then (http_Error ''Invalid upload ID.'' 400, w)
             else
              (let chunkDir = filepath_Join [UploadTempDir appConfig, cleanUploadID];
                   (resp, w1) = completeUpload reqData chunkDir w
               in (resp, os_RemoveAll chunkDir w1))))"

section \<open>Sequences of registry operations\<close>

text \<open>The two operations on the registry, and running a list of them in order.\<close>

datatype registry_op = Register SessionRequest | RecordCompletion string

fun apply_registry_op :: "sessions \<Rightarrow> registry_op \<Rightarrow> sessions" where
  "apply_registry_op sess (Register reqData) = registerSession sess reqData"
| "apply_registry_op sess (RecordCompletion sessionID) =
     snd (checkAndUpdateSession sess sessionID [] [] [] [])"

definition run_registry_ops :: "sessions \<Rightarrow> registry_op list \<Rightarrow> sessions" where
  "run_registry_ops sess ops = foldl apply_registry_op sess ops"

text \<open>A session is active when its completed count is below its expected count.\<close>

definition session_active :: "UploadSession \<Rightarrow> bool" where
  "session_active s = (CompletedCount s <s UploadCount s)"

definition all_active :: "sessions \<Rightarrow> bool" where
  "all_active sess = (\<forall>sid s. sess sid = Some s \<longrightarrow> session_active s)"

definition registers_positive :: "registry_op \<Rightarrow> bool" where
  "registers_positive x =
     (case x of Register reqData \<Rightarrow> 0 <s sr_TotalFiles reqData | RecordCompletion sid \<Rightarrow> True)"

section \<open>Folder names\<close>

text \<open>What may follow the timestamp in a folder name: nothing, or text that does not
  start with a digit.\<close>

definition no_digit_first :: "string \<Rightarrow> bool" where
  "no_digit_first r = (r = [] \<or> \<not> is_digit (hd r))"

section \<open>Predicates on upload ids, events and worlds\<close>

text \<open>The test both handlers apply to the upload id.\<close>

definition invalid_id :: "string \<Rightarrow> bool" where
  "invalid_id uploadID =
     (filepath_Clean (filepath_Base uploadID) = ''.'' \<or> filepath_Clean (filepath_Base uploadID) = ''..'')"

definition is_probed :: "event \<Rightarrow> bool" where
  "is_probed ev = (case ev of Probed f b \<Rightarrow> True | _ \<Rightarrow> False)"

text \<open>\<open>advances w w' evs\<close>: from \<open>w\<close> to \<open>w'\<close> the events \<open>evs\<close> were added to the trace,
  and the file system, the working directory and the clock readings are the same.\<close>

definition advances :: "world \<Rightarrow> world \<Rightarrow> event list \<Rightarrow> bool" where
  "advances w w' evs =
     (fs w' = fs w \<and> cwd w' = cwd w \<and> unixTime w' = unixTime w
      \<and> timeRFC3339 w' = timeRFC3339 w \<and> trace w' = trace w @ evs)"

section \<open>A configuration and a world to run the handlers in\<close>

text \<open>The configuration with the default scratch directory of \<open>main\<close>.\<close>

definition default_config :: Config where
  "default_config =
     \<lparr>NextcloudURL = ''https://cloud.example.org'', NextcloudUser = ''uploader'',
      NextcloudAppPass = ''secret'', NextcloudUploadDir = ''Inbox'',
      UploadTempDir = ''/tmp/nextcloud-public-uploader/''\<rparr>"

text \<open>A world with nothing stored yet, and one in which two chunks of upload \<open>foo\<close> are
  stored, the second one first.\<close>

definition empty_world :: world where
  "empty_world =
     \<lparr>fs = [], cwd = [''app''], uploadSessions = Map.empty,
      remote = [Status 201, Status 201, Status 404, Status 201],
      unixTime = 1700000000, timeRFC3339 = ''2023-11-14T22:13:20Z'',
      copyFault = None, trace = []\<rparr>"

definition stored_world :: world where
  "stored_world =
     empty_world\<lparr>fs :=
       [([''tmp''], Dir),
        ([''tmp'', ''nextcloud-public-uploader''], Dir),
        ([''tmp'', ''nextcloud-public-uploader'', ''foo''], Dir),
        ([''tmp'', ''nextcloud-public-uploader'', ''foo'', ''1''], File ''BB''),
        ([''tmp'', ''nextcloud-public-uploader'', ''foo'', ''0''], File ''AA'')]\<rparr>"

definition chunk_request :: "string \<Rightarrow> string \<Rightarrow> string \<Rightarrow> ChunkForm Request" where
  "chunk_request uploadID index content =
     \<lparr>Method = ''POST'',
      Body = Some \<lparr>dataFile = Some content, uploadId = uploadID, chunkIndex = index\<rparr>\<rparr>"

definition complete_request :: "string \<Rightarrow> string \<Rightarrow> CompleteRequest Request" where
  "complete_request uploadID sessionID =
     \<lparr>Method = ''POST'',
      Body = Some \<lparr>cr_UploadID = uploadID, cr_FileName = ''report.pdf'', cr_Email = ''a.b@x.org'',
                   cr_Phone = [], cr_DataOrigin = ''field work'', cr_SessionID = sessionID,
                   cr_TotalFiles = 0\<rparr>\<rparr>"

(*THEOREMS*)
section \<open>Sequential completion of a session\<close>

text \<open>
  C4. After a session is registered with an expected count of 3, three sequential calls
  of \<open>checkAndUpdateSession\<close> for its id return false, false, true, and the third
  call leaves the registry without the session.
\<close>

theorem three_completions:
  "(let r0 = registerSession reg
       \<lparr>sr_SessionID = sid, sr_Email = e, sr_Phone = p, sr_DataOrigin = d,
        sr_TotalFiles = 3\<rparr>;
       (b1, r1) = checkAndUpdateSession r0 sid f1 e1 p1 d1;
       (b2, r2) = checkAndUpdateSession r1 sid f2 e2 p2 d2;
       (b3, r3) = checkAndUpdateSession r2 sid f3 e3 p3 d3
    in [b1, b2, b3] = [False, False, True] \<and> r3 sid = None)"
  by (simp add: registerSession_def checkAndUpdateSession_def word_sle_eq)

section \<open>Unknown sessions\<close>

text \<open>
  C5. For a session id that is not in the registry, \<open>checkAndUpdateSession\<close> returns
  true and leaves the registry as it was.
\<close>

theorem unknown_session_completes:
  "sess sessionID = None \<Longrightarrow>
     checkAndUpdateSession sess sessionID folderName email phone dataOrigin = (True, sess)"
  by (simp add: checkAndUpdateSession_def)

theorem unknown_session_completes_witness:
  "checkAndUpdateSession
     (registerSession Map.empty
        \<lparr>sr_SessionID = ''s1'', sr_Email = ''a@b.c'', sr_Phone = [], sr_DataOrigin = [],
         sr_TotalFiles = 2\<rparr>)
     ''s2'' ''f'' ''a@b.c'' [] []
   = (True, registerSession Map.empty
        \<lparr>sr_SessionID = ''s1'', sr_Email = ''a@b.c'', sr_Phone = [], sr_DataOrigin = [],
         sr_TotalFiles = 2\<rparr>)"
  by (rule unknown_session_completes) (simp add: registerSession_def)

section \<open>The invariant of the registry\<close>

lemma registerSession_active:
  assumes "all_active sess" and "0 <s sr_TotalFiles reqData"
  shows "all_active (registerSession sess reqData)"
  using assms by (auto simp: all_active_def registerSession_def session_active_def)

lemma checkAndUpdateSession_active:
  assumes "all_active sess"
  shows "all_active (snd (checkAndUpdateSession sess sessionID f e p d))"
proof (cases "sess sessionID")
  case None
  with assms show ?thesis by (simp add: checkAndUpdateSession_def)
next
  case (Some session)
  show ?thesis
  proof (cases "UploadCount session \<le>s CompletedCount session + 1")
    case True
    with Some assms show ?thesis
      by (auto simp: checkAndUpdateSession_def all_active_def)
  next
    case False
    then have "CompletedCount session + 1 <s UploadCount session"
      by (simp add: signed.not_le)
    with Some False assms show ?thesis
      by (auto simp: checkAndUpdateSession_def all_active_def session_active_def)
  qed
qed

lemma apply_registry_op_active:
  "all_active sess \<Longrightarrow> registers_positive x \<Longrightarrow> all_active (apply_registry_op sess x)"
  by (cases x)
     (simp_all add: registers_positive_def registerSession_active checkAndUpdateSession_active)

text \<open>
  C6, as the claim has it, fails: a registration with \<open>totalFiles = 0\<close> puts a session
  into the registry whose completed count, 0, is not below its expected count.
\<close>

theorem register_zero_not_active:
  "all_active Map.empty \<and>
   \<not> all_active (run_registry_ops Map.empty
         [Register \<lparr>sr_SessionID = ''s'', sr_Email = [], sr_Phone = [], sr_DataOrigin = [],
                    sr_TotalFiles = 0\<rparr>])"
proof -
  let ?r = "\<lparr>sr_SessionID = ''s'', sr_Email = [], sr_Phone = [], sr_DataOrigin = [],
             sr_TotalFiles = 0\<rparr>"
  have "registerSession Map.empty ?r ''s''
          = Some \<lparr>Email = [], Phone = [], DataOrigin = [], UploadCount = 0, CompletedCount = 0\<rparr>"
    by (simp add: registerSession_def)
  moreover have "\<not> session_active
      \<lparr>Email = [], Phone = [], DataOrigin = [], UploadCount = 0, CompletedCount = 0\<rparr>"
    by (simp add: session_active_def)
  ultimately have "\<not> all_active (registerSession Map.empty ?r)"
    unfolding all_active_def by blast
  then show ?thesis
    by (simp add: run_registry_ops_def all_active_def)
qed

text \<open>
  C6, amended. Every session in the registry has its completed count strictly below
  its expected count, and this is kept by \<open>checkAndUpdateSession\<close> and by every
  registration whose \<open>totalFiles\<close> is at least 1, along every sequence of such
  operations.
\<close>

theorem registry_stays_active:
  "all_active sess \<Longrightarrow> list_all registers_positive ops \<Longrightarrow>
     all_active (run_registry_ops sess ops)"
  unfolding run_registry_ops_def
  by (induction ops arbitrary: sess) (simp_all add: apply_registry_op_active)

theorem registry_stays_active_witness:
  "all_active (run_registry_ops Map.empty
     [Register \<lparr>sr_SessionID = ''s'', sr_Email = [], sr_Phone = [], sr_DataOrigin = [],
                sr_TotalFiles = 2\<rparr>,
      RecordCompletion ''s'',
      Register \<lparr>sr_SessionID = ''t'', sr_Email = [], sr_Phone = [], sr_DataOrigin = [],
                sr_TotalFiles = 1\<rparr>,
      RecordCompletion ''s''])"
  by (rule registry_stays_active)
     (simp_all add: all_active_def registers_positive_def word_sless_alt)

section \<open>Decimal numerals\<close>

lemma digit_val_digit_char: "d < 10 \<Longrightarrow> digit_val (digit_char d) = Some d"
proof -
  assume "d < 10"
  then consider "d = 0" | "d = 1" | "d = 2" | "d = 3" | "d = 4" | "d = 5" | "d = 6"
    | "d = 7" | "d = 8" | "d = 9" by atomize_elim presburger
  then show ?thesis
    by cases (simp_all add: digit_char_def digit_val_def is_digit_def)
qed

lemma is_digit_digit_char: "d < 10 \<Longrightarrow> is_digit (digit_char d)"
  using digit_val_digit_char [of d] by (simp add: digit_val_def split: if_splits)

lemma digit_char_inj: "a < 10 \<Longrightarrow> b < 10 \<Longrightarrow> digit_char a = digit_char b \<Longrightarrow> a = b"
  by (metis digit_val_digit_char option.inject)

lemma digits10_nonempty: "digits10 n \<noteq> []"
  by (subst digits10.simps) simp

lemma digits10_all_digits: "c \<in> set (digits10 n) \<Longrightarrow> is_digit c"
proof (induction n arbitrary: c rule: digits10.induct)
  case (1 n)
  show ?case
  proof (cases "n < 10")
    case True
    with "1.prems" have "c = digit_char n" by (subst (asm) digits10.simps) simp
    with True show ?thesis by (simp add: is_digit_digit_char)
  next
    case False
    with "1.prems" have "c \<in> set (digits10 (n div 10)) \<or> c = digit_char (n mod 10)"
      by (subst (asm) digits10.simps) auto
    then show ?thesis
    proof
      assume "c \<in> set (digits10 (n div 10))"
      with False "1.IH" show ?thesis by blast
    next
      assume "c = digit_char (n mod 10)"
      then show ?thesis by (simp add: is_digit_digit_char)
    qed
  qed
qed

lemma digits10_inj: "digits10 a = digits10 b \<Longrightarrow> a = b"
proof (induction a arbitrary: b rule: digits10.induct)
  case (1 a)
  show ?case
  proof (cases "a < 10")
    case True
    then have a: "digits10 a = [digit_char a]" by (subst digits10.simps) simp
    have "b < 10"
    proof (rule ccontr)
      assume "\<not> b < 10"
      then have "digits10 b = digits10 (b div 10) @ [digit_char (b mod 10)]"
        by (subst digits10.simps) simp
      with a "1.prems" have "digits10 (b div 10) = []" by simp
      then show False by (simp add: digits10_nonempty)
    qed
    then have "digits10 b = [digit_char b]" by (subst digits10.simps) simp
    with a "1.prems" True \<open>b < 10\<close> show ?thesis by (simp add: digit_char_inj)
  next
    case False
    then have a: "digits10 a = digits10 (a div 10) @ [digit_char (a mod 10)]"
      by (subst digits10.simps) simp
    have nb: "\<not> b < 10"
    proof
      assume "b < 10"
      then have "digits10 b = [digit_char b]" by (subst digits10.simps) simp
      with a "1.prems" have "digits10 (a div 10) = []" by simp
      then show False by (simp add: digits10_nonempty)
    qed
    then have b: "digits10 b = digits10 (b div 10) @ [digit_char (b mod 10)]"
      by (subst digits10.simps) simp
    from a b "1.prems" have e: "digits10 (a div 10) = digits10 (b div 10)"
      and d: "digit_char (a mod 10) = digit_char (b mod 10)" by simp_all
    from "1.IH" [OF False e] have "a div 10 = b div 10" .
    moreover from d have "a mod 10 = b mod 10" by (simp add: digit_char_inj)
    ultimately show ?thesis by (metis div_mult_mod_eq)
  qed
qed

lemma takeWhile_digits10:
  "no_digit_first r \<Longrightarrow> takeWhile is_digit (digits10 n @ r) = digits10 n"
  by (cases r) (auto simp: no_digit_first_def takeWhile_append digits10_all_digits
       intro!: takeWhile_eq_all_conv [THEN iffD2])

lemma digits10_prefix_inj:
  assumes "digits10 a @ r1 = digits10 b @ r2" "no_digit_first r1" "no_digit_first r2"
  shows "a = b"
proof -
  have "digits10 a = takeWhile is_digit (digits10 a @ r1)"
    using assms(2) by (simp add: takeWhile_digits10)
  also have "\<dots> = digits10 b" using assms(1,3) by (simp add: takeWhile_digits10)
  finally show ?thesis by (rule digits10_inj)
qed

lemma hd_digits10_not_minus: "hd (digits10 n) \<noteq> CHR ''-''"
proof -
  have "hd (digits10 n) \<in> set (digits10 n)" by (simp add: digits10_nonempty)
  then have "is_digit (hd (digits10 n))" by (rule digits10_all_digits)
  then show ?thesis by (auto simp: is_digit_def)
qed

lemma format_d_prefix_inj:
  assumes "format_d s @ r1 = format_d t @ r2" "no_digit_first r1" "no_digit_first r2"
  shows "s = t"
proof (cases "s < 0"; cases "t < 0")
  assume "s < 0" "t < 0"
  with assms(1) have "digits10 (nat (- s)) @ r1 = digits10 (nat (- t)) @ r2"
    by (simp add: format_d_def)
  from digits10_prefix_inj [OF this assms(2,3)] \<open>s < 0\<close> \<open>t < 0\<close> show ?thesis by simp
next
  assume "\<not> s < 0" "\<not> t < 0"
  with assms(1) have "digits10 (nat s) @ r1 = digits10 (nat t) @ r2"
    by (simp add: format_d_def)
  from digits10_prefix_inj [OF this assms(2,3)] \<open>\<not> s < 0\<close> \<open>\<not> t < 0\<close> show ?thesis by simp
next
  assume "s < 0" "\<not> t < 0"
  with assms(1) have "CHR ''-'' # digits10 (nat (- s)) @ r1 = digits10 (nat t) @ r2"
    by (simp add: format_d_def)
  then have "hd (digits10 (nat t) @ r2) = CHR ''-''" by (metis list.sel(1))
  then show ?thesis using hd_digits10_not_minus [of "nat t"] by (simp add: digits10_nonempty)
next
  assume "\<not> s < 0" "t < 0"
  with assms(1) have "digits10 (nat s) @ r1 = CHR ''-'' # digits10 (nat (- t)) @ r2"
    by (simp add: format_d_def)
  then have "hd (digits10 (nat s) @ r1) = CHR ''-''" by (metis list.sel(1))
  then show ?thesis using hd_digits10_not_minus [of "nat s"] by (simp add: digits10_nonempty)
qed

lemma createFolderName_shape:
  "createFolderName t email phone =
     format_d t
     @ (if email \<noteq> []
        then ''-'' @ strings_ReplaceAll (strings_ReplaceAll email (CHR ''@'') ''_at_'') (CHR ''.'') ''_''
        else [])
     @ (if phone \<noteq> []
        then ''-'' @ strings_ReplaceAll (strings_ReplaceAll (strings_ReplaceAll
                 (strings_ReplaceAll (strings_ReplaceAll phone (CHR '' '') []) (CHR ''-'') [])
                    (CHR ''('') []) (CHR '')'') []) (CHR ''+'') ''plus''
        else [])"
  by (simp add: createFolderName_def Let_def)

lemma createFolderName_rest:
  "\<exists>r. createFolderName t email phone = format_d t @ r \<and> no_digit_first r"
  by (simp add: createFolderName_shape no_digit_first_def is_digit_def)

lemma createFolderName_timestamp_inj:
  assumes "createFolderName s e1 p1 = createFolderName t e2 p2"
  shows "s = t"
proof -
  obtain r1 where r1: "createFolderName s e1 p1 = format_d s @ r1" "no_digit_first r1"
    using createFolderName_rest by blast
  obtain r2 where r2: "createFolderName t e2 p2 = format_d t @ r2" "no_digit_first r2"
    using createFolderName_rest by blast
  from assms r1 r2 show ?thesis by (metis format_d_prefix_inj)
qed

text \<open>
  C9, as the claim has it, fails: the timestamp counts seconds, and within one second
  two submissions get the same folder name, even with different email addresses.
\<close>

theorem folder_names_collide:
  "''a.b@x.org'' \<noteq> ''a_b@x.org'' \<and>
   createFolderName 1700000000 ''a.b@x.org'' [] = createFolderName 1700000000 ''a_b@x.org'' []"
  by (simp add: createFolderName_def strings_ReplaceAll_def)

text \<open>
  C9, amended. The folder name is a function of the clock reading, the email and the
  phone: it begins with the timestamp in decimal, the sanitized email follows (after a
  dash) exactly when the email is not empty, the sanitized phone follows exactly when
  the phone is not empty; and the folder names of two submissions whose timestamps
  differ are different.
\<close>

theorem folder_name_components:
  "createFolderName t email phone =
     format_d t
     @ (if email \<noteq> []
        then ''-'' @ strings_ReplaceAll (strings_ReplaceAll email (CHR ''@'') ''_at_'') (CHR ''.'') ''_''
        else [])
     @ (if phone \<noteq> []
        then ''-'' @ strings_ReplaceAll (strings_ReplaceAll (strings_ReplaceAll
                 (strings_ReplaceAll (strings_ReplaceAll phone (CHR '' '') []) (CHR ''-'') [])
                    (CHR ''('') []) (CHR '')'') []) (CHR ''+'') ''plus''
        else [])
   \<and> (\<forall>t' email' phone'. t' \<noteq> t \<longrightarrow>
          createFolderName t' email' phone' \<noteq> createFolderName t email phone)"
  using createFolderName_shape createFolderName_timestamp_inj by blast

theorem folder_name_components_witness:
  "createFolderName 1700000000 ''a.b@x.org'' ''+34 (91) 555-0100''
     = ''1700000000-a_b_at_x_org-plus34915550100''
   \<and> createFolderName 1700000001 ''a.b@x.org'' []
       \<noteq> createFolderName 1700000000 ''a.b@x.org'' ''+34 (91) 555-0100''"
proof -
  note t = folder_name_components [of 1700000000 "''a.b@x.org''" "''+34 (91) 555-0100''"]
  have "(1700000001::int) \<noteq> 1700000000" by simp
  with t have "createFolderName 1700000001 ''a.b@x.org'' []
       \<noteq> createFolderName 1700000000 ''a.b@x.org'' ''+34 (91) 555-0100''"
    by blast
  moreover from t have "createFolderName 1700000000 ''a.b@x.org'' ''+34 (91) 555-0100''
     = ''1700000000-a_b_at_x_org-plus34915550100''"
    by (simp add: strings_ReplaceAll_def format_d_def digits10.simps digit_char_def)
  ultimately show ?thesis by blast
qed

end
